theory Spec2Isabelle
  imports Main "HOL-Library.Sublist"
begin

section \<open>Data model of the cluster service\<close>

text \<open>
  The service in \<^verbatim>\<open>src/cluster/cluster.service.ts\<close> extends the election engine of the
  \<^verbatim>\<open>democracy\<close> package. What the service reads from its configuration, from the operating
  system and from the inherited engine is data of the model; what it mutates is a field of
  the record \<open>cluster\<close>, returned updated.
\<close>

datatype js_error = TypeError | Thrown string

text \<open>
  \<^verbatim>\<open>ClusterConfig\<close>: \<open>networkInterface\<close> and \<open>quorum\<close> are read through JavaScript truthiness
  (\<^verbatim>\<open>config.networkInterface ? .. : ..\<close>, \<^verbatim>\<open>!this.config.quorum\<close>), so an unset option is
  \<open>None\<close>.
\<close>

record cluster_config =
  networkInterface :: "string option"
  port :: nat
  peerAddresses :: "string list"
  timeout :: int
  weight :: int
  quorum :: "int option"
  autoDiscovery :: bool

text \<open>\<^verbatim>\<open>os.NetworkInterfaceInfo\<close>, with the three fields the service reads.\<close>

record network_interface_info =
  address :: string
  family :: string
  internal :: bool

text \<open>
  A \<^verbatim>\<open>Node\<close> of the engine: \<open>state\<close> is the engine's state string, \<open>disconnected\<close> the handle
  of the node's pending removal timer (absent when no timer is pending).
\<close>

record node =
  source :: string
  state :: string
  disconnected :: "nat option"

text \<open>
  An entry of \<^verbatim>\<open>this.options.peers\<close> is an array of strings read at the indices 0 and 1;
  an element can be \<^verbatim>\<open>undefined\<close> (\<open>None\<close>), and so is every read beyond the array's end.
\<close>

type_synonym peer = "string option list"

definition at :: "peer \<Rightarrow> nat \<Rightarrow> string option" where
  "at p i = (if i < length p then p ! i else None)"

text \<open>The handles returned by \<^verbatim>\<open>mdns.createAdvertisement\<close> and \<^verbatim>\<open>mdns.createBrowser\<close>.\<close>

record advertisement =
  ad_port :: nat
  ad_networkInterface :: "string option"
  ad_running :: bool

record browser =
  br_running :: bool

datatype log_level = Log | Warn | Debug

text \<open>
  The mutable state of the service. \<open>timers\<close> is the set of timer handles pending in the
  runtime (\<^verbatim>\<open>clearTimeout\<close> removes one), \<open>sent\<close> records every call of the inherited
  \<^verbatim>\<open>send(event, data)\<close>, \<open>logs\<close> every call of the logger.
\<close>

record cluster =
  peers :: "peer list"
  nodes_priv :: "string \<rightharpoonup> node"
  timers :: "nat set"
  networkInterfaces :: "network_interface_info list"
  advertisement :: "advertisement option"
  browser :: "browser option"
  sent :: "(string \<times> peer list option) list"
  logs :: "(log_level \<times> string) list"

section \<open>Quorum and majority leadership\<close>

text \<open>
  \<^verbatim>\<open>quorumReached\<close> filters \<^verbatim>\<open>Object.values(this.nodes())\<close>; the object returned by the
  inherited accessor \<^verbatim>\<open>nodes()\<close> is the argument \<open>nds\<close>, as its list of entries.
  \<^verbatim>\<open>!this.config.quorum\<close> is true for an unset option and for the number 0.
\<close>

definition falsy_number :: "int option \<Rightarrow> bool" where
  "falsy_number q = (case q of None \<Rightarrow> True | Some n \<Rightarrow> n = 0)"

definition meets :: "nat \<Rightarrow> int option \<Rightarrow> bool" where
  \<comment> \<open>\<^verbatim>\<open>length >= quorum\<close>: a comparison with \<^verbatim>\<open>undefined\<close> is false.\<close>
  "meets n q = (case q of None \<Rightarrow> False | Some k \<Rightarrow> k \<le> int n)"

definition activeNodes :: "(string \<times> node) list \<Rightarrow> node list" where
  "activeNodes nds = filter (\<lambda>node. state node \<noteq> ''removed'') (map snd nds)"

definition quorumReached :: "cluster_config \<Rightarrow> (string \<times> node) list \<Rightarrow> bool" where
  "quorumReached config nds =
     (falsy_number (quorum config) \<or> meets (length (activeNodes nds)) (quorum config))"

text \<open>
  \<^verbatim>\<open>isMajorityLeader\<close>: \<open>isLeader\<close> is the value of the inherited \<^verbatim>\<open>this.isLeader()\<close>, true
  when the local node is the engine's current leader.
\<close>

definition isMajorityLeader :: "cluster_config \<Rightarrow> bool \<Rightarrow> (string \<times> node) list \<Rightarrow> bool" where
  "isMajorityLeader config isLeader nds = (isLeader \<and> quorumReached config nds)"

section \<open>Peer list\<close>

text \<open>\<^verbatim>\<open>Array.prototype.findIndex\<close>: the first index whose element satisfies \<open>P\<close>, or -1.\<close>

fun findIndex :: "('a \<Rightarrow> bool) \<Rightarrow> 'a list \<Rightarrow> int" where
  "findIndex P [] = -1"
| "findIndex P (x # xs) =
     (if P x then 0 else (let i = findIndex P xs in if i < 0 then -1 else i + 1))"

definition same_endpoint :: "peer \<Rightarrow> peer \<Rightarrow> bool" where
  \<comment> \<open>the callback \<^verbatim>\<open>p => p[0] === peer[0] && p[1] === peer[1]\<close>\<close>
  "same_endpoint peer p = (at p 0 = at peer 0 \<and> at p 1 = at peer 1)"

definition addPeer :: "peer \<Rightarrow> peer list \<Rightarrow> peer list" where
  \<comment> \<open>the body of the \<^verbatim>\<open>forEach\<close> in \<^verbatim>\<open>addMissingPeers\<close>\<close>
  "addPeer peer ps =
     (let index = findIndex (same_endpoint peer) ps
      in if index < 0 then ps @ [peer] else ps)"

definition addMissingPeers :: "peer list \<Rightarrow> cluster \<Rightarrow> cluster" where
  "addMissingPeers incoming st = st\<lparr>peers := fold addPeer incoming (peers st)\<rparr>"

definition broadcastPeers :: "cluster \<Rightarrow> cluster" where
  "broadcastPeers st = st\<lparr>sent := sent st @ [(''peers'', Some (peers st))]\<rparr>"

text \<open>The pair a peer-list entry is compared by.\<close>

definition endpoint :: "peer \<Rightarrow> string option \<times> string option" where
  "endpoint p = (at p 0, at p 1)"

section \<open>Ballot check with the rescue of configured peers\<close>

definition clearTimeout :: "nat option \<Rightarrow> nat set \<Rightarrow> nat set" where
  \<comment> \<open>\<^verbatim>\<open>clearTimeout(undefined)\<close> does nothing\<close>
  "clearTimeout handle pending = (case handle of None \<Rightarrow> pending | Some h \<Rightarrow> pending - {h})"

text \<open>
  \<^verbatim>\<open>checkBallots\<close> first runs the inherited ballot check, the argument \<open>super_checkBallots\<close>
  (any state transformer that may throw). It then reads \<^verbatim>\<open>this._nodes[candidate]\<close> and the
  entry's \<^verbatim>\<open>source\<close>: on a missing entry that read is a \<^verbatim>\<open>TypeError\<close>.
\<close>

definition checkBallots ::
  "(string \<Rightarrow> cluster \<Rightarrow> js_error + cluster) \<Rightarrow> cluster_config \<Rightarrow> string \<Rightarrow> cluster
     \<Rightarrow> js_error + cluster" where
  "checkBallots super_checkBallots config candidate st =
     (case super_checkBallots candidate st of
        Inl e \<Rightarrow> Inl e
      | Inr st1 \<Rightarrow>
          (case nodes_priv st1 candidate of
             None \<Rightarrow> Inl TypeError
           | Some node \<Rightarrow>
               if source node \<in> set (peerAddresses config)
               then Inr (st1\<lparr>
                      logs := logs st1 @
                        [(Debug, ''Saving configured peer '' @ source node @ '' from ultimate removal'')],
                      timers := clearTimeout (disconnected node) (timers st1),
                      nodes_priv := (nodes_priv st1)(candidate \<mapsto> node\<lparr>disconnected := None\<rparr>)\<rparr>)
               else Inr st1))"

text \<open>
  Modelled from the spec: the engine's removal timer and its handling of an inbound
  message live in the \<^verbatim>\<open>democracy\<close> dependency, which is not among the sources. The spec
  says of them: "removed \<rightarrow> (purged): after an additional grace period, the entry is deleted
  from the map", and "suspect \<rightarrow> active: any message arrives before the removal timer fires;
  timer is cancelled", "every inbound message of any kind refreshes the sender's Node". A
  timer that was cancelled is no longer pending and its callback does not run.
\<close>

definition removalTimerFired :: "nat \<Rightarrow> cluster \<Rightarrow> cluster" where
  "removalTimerFired h st =
     (if h \<in> timers st
      then st\<lparr>timers := timers st - {h},
              nodes_priv := (\<lambda>nodeId. case nodes_priv st nodeId of
                                None \<Rightarrow> None
                              | Some n \<Rightarrow> if disconnected n = Some h then None else Some n)\<rparr>
      else st)"

definition messageReceived :: "string \<Rightarrow> string \<Rightarrow> cluster \<Rightarrow> cluster" where
  "messageReceived nodeId src st =
     (case nodes_priv st nodeId of
        None \<Rightarrow> st\<lparr>nodes_priv := (nodes_priv st)(nodeId \<mapsto>
                     \<lparr>source = src, state = ''new'', disconnected = None\<rparr>)\<rparr>
      | Some n \<Rightarrow> st\<lparr>timers := clearTimeout (disconnected n) (timers st),
                     nodes_priv := (nodes_priv st)(nodeId \<mapsto>
                       n\<lparr>state := ''active'', disconnected := None\<rparr>)\<rparr>)"

section \<open>Discovery\<close>

text \<open>\<^verbatim>\<open>Number.prototype.toString\<close> on a port number: its decimal digits.\<close>

definition digit :: "nat \<Rightarrow> char" where
  "digit d = ''0123456789'' ! d"

function toString :: "nat \<Rightarrow> string" where
  "toString n = (if n < 10 then [digit n] else toString (n div 10) @ [digit (n mod 10)])"
  by pat_completeness auto
termination
  by (relation "measure (\<lambda>n. n)") auto

declare toString.simps [simp del]

text \<open>The \<^verbatim>\<open>Service\<close> the mdns browser reports.\<close>

record service =
  addresses :: "string list"
  svc_port :: nat

definition first_address :: "string list \<Rightarrow> string option" where
  \<comment> \<open>\<^verbatim>\<open>service.addresses[0]\<close>, \<^verbatim>\<open>undefined\<close> on an empty array\<close>
  "first_address as = (case as of [] \<Rightarrow> None | a # _ \<Rightarrow> Some a)"

definition handleNodeDiscovery :: "service \<Rightarrow> cluster \<Rightarrow> cluster" where
  "handleNodeDiscovery svc st =
     (let ownIps = map address (networkInterfaces st)
      in if list_ex (\<lambda>a. a \<in> set ownIps) (addresses svc)
            \<or> list_ex (\<lambda>peer. list_ex (\<lambda>a. at peer 0 = Some a
                                          \<and> at peer 1 = Some (toString (svc_port svc)))
                                  (addresses svc))
                 (peers st)
         then st
         else st\<lparr>peers := peers st @
                    [[first_address (addresses svc), Some (toString (svc_port svc))]],
                 sent := sent st @ [(''hello'', None)]\<rparr>)"

definition startBonjourDiscovery :: "cluster_config \<Rightarrow> cluster \<Rightarrow> cluster" where
  "startBonjourDiscovery config st =
     st\<lparr>advertisement := Some \<lparr>ad_port = port config,
                               ad_networkInterface = networkInterface config,
                               ad_running = True\<rparr>,
        browser := Some \<lparr>br_running = True\<rparr>,
        logs := logs st @ [(Log, ''Starting mDNS advertisements and discovery'')]\<rparr>"

section \<open>Lifecycle\<close>

definition mdns_missing_warning :: string where
  \<open>mdns_missing_warning =
     ''Dependency "mdns" was not found, automatic discovery has been disabled. '' @
     ''You will have to provide the addresses of other room-assistant nodes manually in the config.''\<close>

text \<open>
  \<^verbatim>\<open>onApplicationBootstrap\<close>: \<open>mdns_loaded\<close> says whether \<^verbatim>\<open>require('mdns')\<close> succeeded when the
  module was loaded (the variable \<^verbatim>\<open>mdns\<close> is \<^verbatim>\<open>undefined\<close> otherwise).
\<close>

definition onApplicationBootstrap :: "cluster_config \<Rightarrow> bool \<Rightarrow> cluster \<Rightarrow> cluster" where
  "onApplicationBootstrap config mdns_loaded st =
     broadcastPeers
       (if autoDiscovery config
        then (if mdns_loaded then startBonjourDiscovery config st
              else st\<lparr>logs := logs st @ [(Warn, mdns_missing_warning)]\<rparr>)
        else st)"

definition onApplicationShutdown :: "cluster \<Rightarrow> cluster" where
  "onApplicationShutdown st =
     st\<lparr>advertisement := map_option (\<lambda>a. a\<lparr>ad_running := False\<rparr>) (advertisement st),
        browser := map_option (\<lambda>b. b\<lparr>br_running := False\<rparr>) (browser st)\<rparr>"

section \<open>Construction\<close>






section \<open>Example inputs\<close>

definition example_config :: cluster_config where
  "example_config =
     \<lparr>networkInterface = None, port = 6425, peerAddresses = [''192.168.1.20:6425''],
      timeout = 60, weight = 1, quorum = Some 2, autoDiscovery = True\<rparr>"

definition kitchen :: node where
  "kitchen = \<lparr>source = ''192.168.1.20:6425'', state = ''removed'', disconnected = Some 7\<rparr>"

definition hallway :: node where
  "hallway = \<lparr>source = ''192.168.1.30:6425'', state = ''citizen'', disconnected = None\<rparr>"

definition example_cluster :: cluster where
  "example_cluster =
     \<lparr>peers = [[Some ''192.168.1.20'', Some ''6425'']],
      nodes_priv = [''kitchen'' \<mapsto> kitchen],
      timers = {7},
      networkInterfaces = [\<lparr>address = ''192.168.1.10'', family = ''IPv4'', internal = False\<rparr>],
      advertisement = None, browser = None, sent = [], logs = []\<rparr>"

definition example_service :: service where
  "example_service = \<lparr>addresses = [''192.168.1.40'', ''192.168.1.41''], svc_port = 6425\<rparr>"







section \<open>Results\<close>

lemma findIndex_negative: "findIndex P xs < 0 \<longleftrightarrow> \<not> list_ex P xs"
  by (induction xs) (auto simp: Let_def)

text \<open>
  C1: \<^verbatim>\<open>isMajorityLeader()\<close> is true exactly when the local node is the leader and
  \<^verbatim>\<open>quorumReached()\<close> is true; when the quorum is not reached it is false whatever the
  leader is.
\<close>

theorem isMajorityLeader_iff:
  "(isMajorityLeader config isLeader nds \<longleftrightarrow> isLeader \<and> quorumReached config nds)
   \<and> (\<not> quorumReached config nds \<longrightarrow> \<not> isMajorityLeader config isLeader' nds)"
  by (simp add: isMajorityLeader_def)

theorem isMajorityLeader_iff_witness:
  "\<not> quorumReached example_config [(''kitchen'', kitchen), (''hallway'', hallway)]
   \<and> \<not> isMajorityLeader example_config True [(''kitchen'', kitchen), (''hallway'', hallway)]"
  using isMajorityLeader_iff
    [of example_config True "[(''kitchen'', kitchen), (''hallway'', hallway)]" True]
  by (simp add: quorumReached_def falsy_number_def meets_def activeNodes_def
      example_config_def kitchen_def hallway_def)

text \<open>
  C2: for a configured threshold \<open>q\<close> and any node object, \<^verbatim>\<open>quorumReached()\<close> is true
  exactly when \<open>q\<close> is 0 or at least \<open>q\<close> of the nodes have a state other than
  \<^verbatim>\<open>'removed'\<close>. The query returns a truth value computed from the configuration and the
  node object alone and changes nothing.
\<close>

theorem quorumReached_iff:
  "quorum config = Some q \<Longrightarrow>
     quorumReached config nds \<longleftrightarrow>
       (q = 0 \<or> q \<le> int (length (filter (\<lambda>n. state n \<noteq> ''removed'') (map snd nds))))"
  by (simp add: quorumReached_def falsy_number_def meets_def activeNodes_def)

theorem quorumReached_iff_witness:
  "quorum example_config = Some 2
   \<and> \<not> quorumReached example_config [(''kitchen'', kitchen), (''hallway'', hallway)]
   \<and> quorumReached example_config [(''hallway'', hallway), (''porch'', hallway)]"
  using quorumReached_iff
      [of example_config 2 "[(''kitchen'', kitchen), (''hallway'', hallway)]"]
    quorumReached_iff
      [of example_config 2 "[(''hallway'', hallway), (''porch'', hallway)]"]
  by (simp add: example_config_def kitchen_def hallway_def)

lemma quorumReached_unset: "quorum config = None \<Longrightarrow> quorumReached config nds"
  by (simp add: quorumReached_def falsy_number_def)

subsection \<open>Merging peer lists\<close>

lemma same_endpoint_iff: "same_endpoint a b \<longleftrightarrow> endpoint a = endpoint b"
  by (auto simp: same_endpoint_def endpoint_def)

lemma addPeer_present: "list_ex (same_endpoint peer) ps \<Longrightarrow> addPeer peer ps = ps"
  by (simp add: addPeer_def findIndex_negative)

lemma addPeer_absent: "\<not> list_ex (same_endpoint peer) ps \<Longrightarrow> addPeer peer ps = ps @ [peer]"
  by (simp add: addPeer_def findIndex_negative)

text \<open>
  What one merge appends: a subsequence of the incoming list, none of it matched by an
  entry present before, pairwise different in (host, port), and covering every incoming
  entry that was not matched before.
\<close>

lemma fold_addPeer_char:
  "\<exists>A. fold addPeer L ps = ps @ A
      \<and> subseq A L
      \<and> (\<forall>a\<in>set A. \<not> list_ex (same_endpoint a) ps)
      \<and> (\<forall>l\<in>set L. \<not> list_ex (same_endpoint l) ps \<longrightarrow> list_ex (same_endpoint l) A)
      \<and> distinct (map endpoint A)"
proof (induction L arbitrary: ps)
  case Nil
  then show ?case by simp
next
  case (Cons l L)
  show ?case
  proof (cases "list_ex (same_endpoint l) ps")
    case True
    from Cons.IH [of ps] obtain A where A:
      "fold addPeer L ps = ps @ A" "subseq A L"
      "\<forall>a\<in>set A. \<not> list_ex (same_endpoint a) ps"
      "\<forall>l\<in>set L. \<not> list_ex (same_endpoint l) ps \<longrightarrow> list_ex (same_endpoint l) A"
      "distinct (map endpoint A)"
      by blast
    have "fold addPeer (l # L) ps = ps @ A"
      using True A(1) by (simp add: addPeer_present)
    moreover have "subseq A (l # L)"
      using A(2) by (rule list_emb_Cons)
    moreover have "\<forall>x\<in>set (l # L). \<not> list_ex (same_endpoint x) ps \<longrightarrow> list_ex (same_endpoint x) A"
      using True A(4) by simp
    ultimately show ?thesis using A(3,5) by blast
  next
    case False
    from Cons.IH [of "ps @ [l]"] obtain A where A:
      "fold addPeer L (ps @ [l]) = (ps @ [l]) @ A" "subseq A L"
      "\<forall>a\<in>set A. \<not> list_ex (same_endpoint a) (ps @ [l])"
      "\<forall>x\<in>set L. \<not> list_ex (same_endpoint x) (ps @ [l]) \<longrightarrow> list_ex (same_endpoint x) A"
      "distinct (map endpoint A)"
      by blast
    have 1: "fold addPeer (l # L) ps = ps @ (l # A)"
      using False A(1) by (simp add: addPeer_absent)
    have 2: "subseq (l # A) (l # L)"
      using A(2) by simp
    have 3: "\<forall>a\<in>set (l # A). \<not> list_ex (same_endpoint a) ps"
      using False A(3) by (auto simp: list_ex_iff)
    have 4: "\<forall>x\<in>set (l # L). \<not> list_ex (same_endpoint x) ps \<longrightarrow> list_ex (same_endpoint x) (l # A)"
      using A(4) by (auto simp: list_ex_iff same_endpoint_iff)
    have "endpoint l \<notin> endpoint ` set A"
      using A(3) by (auto simp: list_ex_iff same_endpoint_iff)
    then have 5: "distinct (map endpoint (l # A))"
      using A(5) by simp
    from 1 2 3 4 5 show ?thesis by blast
  qed
qed

lemma fold_addPeer_fixed:
  "\<forall>l\<in>set L. list_ex (same_endpoint l) ps \<Longrightarrow> fold addPeer L ps = ps"
  by (induction L) (simp_all add: addPeer_present)

lemma fold_addPeer_covers:
  "l \<in> set L \<Longrightarrow> list_ex (same_endpoint l) (fold addPeer L ps)"
proof -
  assume l: "l \<in> set L"
  from fold_addPeer_char [of L ps] obtain A where A:
    "fold addPeer L ps = ps @ A"
    "\<forall>l\<in>set L. \<not> list_ex (same_endpoint l) ps \<longrightarrow> list_ex (same_endpoint l) A"
    by blast
  show ?thesis
    using l A by (cases "list_ex (same_endpoint l) ps") auto
qed

lemma distinct_endpoints_append:
  assumes "distinct (map endpoint ps)" and "distinct (map endpoint A)"
    and "\<forall>a\<in>set A. \<not> list_ex (same_endpoint a) ps"
  shows "distinct (map endpoint (ps @ A))"
  using assms by (auto simp: list_ex_iff same_endpoint_iff)

text \<open>
  C4: merging an incoming peer list is idempotent: \<^verbatim>\<open>addMissingPeers(L)\<close> applied twice in
  succession leaves the service as one application does.
\<close>

theorem addMissingPeers_idempotent:
  "addMissingPeers incoming (addMissingPeers incoming st) = addMissingPeers incoming st"
  by (simp add: addMissingPeers_def fold_addPeer_fixed fold_addPeer_covers)

theorem addMissingPeers_idempotent_witness:
  "addMissingPeers [[Some ''192.168.1.30'', Some ''6425''], [Some ''192.168.1.30'', Some ''6425'']]
     (addMissingPeers
        [[Some ''192.168.1.30'', Some ''6425''], [Some ''192.168.1.30'', Some ''6425'']]
        example_cluster)
   = addMissingPeers
       [[Some ''192.168.1.30'', Some ''6425''], [Some ''192.168.1.30'', Some ''6425'']]
       example_cluster
   \<and> peers (addMissingPeers
       [[Some ''192.168.1.30'', Some ''6425''], [Some ''192.168.1.30'', Some ''6425'']]
       example_cluster)
     = [[Some ''192.168.1.20'', Some ''6425''], [Some ''192.168.1.30'', Some ''6425'']]"
  using addMissingPeers_idempotent
    [of "[[Some ''192.168.1.30'', Some ''6425''], [Some ''192.168.1.30'', Some ''6425'']]"
        example_cluster]
  by (simp add: addMissingPeers_def addPeer_def same_endpoint_def at_def example_cluster_def)

text \<open>
  C5: a merge goes through the incoming pairs in order and appends each pair that no entry
  of the peer list at that moment matches in (host, port); the entries present before stay
  where they were, unchanged, as a prefix of the new list. What is appended is a
  subsequence of the incoming list, matched by no earlier entry, and every incoming pair
  unmatched before the merge is matched after it. A list whose entries are unique by
  (host, port) before the merge is so after it.
\<close>

theorem addMissingPeers_appends:
  "\<exists>added. addMissingPeers incoming st = st\<lparr>peers := peers st @ added\<rparr>
      \<and> subseq added incoming
      \<and> (\<forall>a\<in>set added. \<not> list_ex (same_endpoint a) (peers st))
      \<and> (\<forall>l\<in>set incoming. \<not> list_ex (same_endpoint l) (peers st)
            \<longrightarrow> list_ex (same_endpoint l) added)
      \<and> distinct (map endpoint added)
      \<and> (distinct (map endpoint (peers st))
            \<longrightarrow> distinct (map endpoint (peers (addMissingPeers incoming st))))"
proof -
  from fold_addPeer_char [of incoming "peers st"] obtain A where A:
    "fold addPeer incoming (peers st) = peers st @ A" "subseq A incoming"
    "\<forall>a\<in>set A. \<not> list_ex (same_endpoint a) (peers st)"
    "\<forall>l\<in>set incoming. \<not> list_ex (same_endpoint l) (peers st) \<longrightarrow> list_ex (same_endpoint l) A"
    "distinct (map endpoint A)"
    by blast
  have eq: "addMissingPeers incoming st = st\<lparr>peers := peers st @ A\<rparr>"
    using A(1) by (simp add: addMissingPeers_def)
  have "distinct (map endpoint (peers st))
          \<longrightarrow> distinct (map endpoint (peers (addMissingPeers incoming st)))"
    using distinct_endpoints_append [OF _ A(5) A(3)] by (simp add: eq)
  with eq A show ?thesis by blast
qed

theorem addMissingPeers_appends_witness:
  "distinct (map endpoint (peers example_cluster))
   \<and> distinct (map endpoint (peers (addMissingPeers
        [[Some ''192.168.1.20'', Some ''6425''], [Some ''192.168.1.30'', Some ''6425'']]
        example_cluster)))
   \<and> peers (addMissingPeers
        [[Some ''192.168.1.20'', Some ''6425''], [Some ''192.168.1.30'', Some ''6425'']]
        example_cluster)
     = peers example_cluster @ [[Some ''192.168.1.30'', Some ''6425'']]"
  using addMissingPeers_appends
    [of "[[Some ''192.168.1.20'', Some ''6425''], [Some ''192.168.1.30'', Some ''6425'']]"
        example_cluster]
  by (simp add: addMissingPeers_def addPeer_def same_endpoint_def at_def endpoint_def
      example_cluster_def)

subsection \<open>Discovery\<close>

text \<open>
  C6, as amended: a discovered service is ignored as a whole (no change of the peer list,
  no hello) when any of its addresses is an address of this node's own interfaces, or when
  a peer-list entry matches any of its addresses together with its port. Otherwise one
  entry is appended, the service's first address with the port, and one hello is sent; the
  service's other addresses are not added.
\<close>

theorem handleNodeDiscovery_cases:
  "((\<exists>a\<in>set (addresses svc).
        a \<in> address ` set (networkInterfaces st)
        \<or> (\<exists>p\<in>set (peers st). at p 0 = Some a \<and> at p 1 = Some (toString (svc_port svc))))
      \<longrightarrow> handleNodeDiscovery svc st = st)
   \<and> (\<not> (\<exists>a\<in>set (addresses svc).
        a \<in> address ` set (networkInterfaces st)
        \<or> (\<exists>p\<in>set (peers st). at p 0 = Some a \<and> at p 1 = Some (toString (svc_port svc))))
      \<longrightarrow> handleNodeDiscovery svc st
            = st\<lparr>peers := peers st @
                    [[first_address (addresses svc), Some (toString (svc_port svc))]],
                 sent := sent st @ [(''hello'', None)]\<rparr>)"
  by (auto simp: handleNodeDiscovery_def list_ex_iff)

theorem handleNodeDiscovery_cases_witness:
  "handleNodeDiscovery \<lparr>addresses = [''192.168.1.41'', ''192.168.1.20''], svc_port = 6425\<rparr>
     example_cluster = example_cluster
   \<and> handleNodeDiscovery example_service example_cluster
     = example_cluster\<lparr>
         peers := peers example_cluster @ [[Some ''192.168.1.40'', Some ''6425'']],
         sent := sent example_cluster @ [(''hello'', None)]\<rparr>"
  using handleNodeDiscovery_cases
      [of "\<lparr>addresses = [''192.168.1.41'', ''192.168.1.20''], svc_port = 6425\<rparr>"
          example_cluster]
    handleNodeDiscovery_cases [of example_service example_cluster]
  by (simp add: example_service_def example_cluster_def at_def toString.simps digit_def
      first_address_def)

text \<open>
  C6 as stated fails: the service below has two addresses, neither an own address nor in
  the peer list; only the first is added.
\<close>

theorem handleNodeDiscovery_counterexample:
  "''192.168.1.41'' \<in> set (addresses example_service)
   \<and> ''192.168.1.41'' \<notin> address ` set (networkInterfaces example_cluster)
   \<and> [Some ''192.168.1.41'', Some (toString (svc_port example_service))]
        \<notin> set (peers example_cluster)
   \<and> peers (handleNodeDiscovery example_service example_cluster)
       = [[Some ''192.168.1.20'', Some ''6425''], [Some ''192.168.1.40'', Some ''6425'']]
   \<and> [Some ''192.168.1.41'', Some (toString (svc_port example_service))]
        \<notin> set (peers (handleNodeDiscovery example_service example_cluster))"
  by (simp add: handleNodeDiscovery_def example_service_def example_cluster_def at_def
      toString.simps digit_def first_address_def)

subsection \<open>Ballot check\<close>

text \<open>
  C7: the rescue in \<^verbatim>\<open>checkBallots\<close> reads the candidate's entry and its \<^verbatim>\<open>source\<close> without a
  guard. When the inherited check has returned, the call faults exactly when the candidate
  is no longer a key of the node map; when it still is a key the call returns normally.
\<close>

theorem checkBallots_faults_iff:
  "super_checkBallots candidate st = Inr st1 \<Longrightarrow>
     (checkBallots super_checkBallots config candidate st = Inl TypeError
        \<longleftrightarrow> nodes_priv st1 candidate = None)
     \<and> (nodes_priv st1 candidate \<noteq> None
        \<longrightarrow> (\<exists>st2. checkBallots super_checkBallots config candidate st = Inr st2))"
  by (auto simp: checkBallots_def split: option.splits)

theorem checkBallots_faults_iff_witness:
  "checkBallots (\<lambda>c s. Inr s) example_config ''kitchen'' example_cluster \<noteq> Inl TypeError
   \<and> checkBallots (\<lambda>c s. Inr s) example_config ''garage'' example_cluster = Inl TypeError"
  using checkBallots_faults_iff
      [of "\<lambda>c s. Inr s" "''kitchen''" example_cluster example_cluster example_config]
    checkBallots_faults_iff
      [of "\<lambda>c s. Inr s" "''garage''" example_cluster example_cluster example_config]
  by (simp add: example_cluster_def)

lemma removalTimerFired_keeps:
  "nodes_priv st c = Some m \<Longrightarrow> disconnected m = None \<Longrightarrow>
     nodes_priv (removalTimerFired h st) c = Some m"
  by (simp add: removalTimerFired_def)

lemma fold_removalTimerFired_keeps:
  "nodes_priv st c = Some m \<Longrightarrow> disconnected m = None \<Longrightarrow>
     nodes_priv (fold removalTimerFired hs st) c = Some m"
  by (induction hs arbitrary: st) (simp_all add: removalTimerFired_keeps)

text \<open>
  C3: for a candidate whose entry is in the node map after the inherited check and whose
  \<^verbatim>\<open>source\<close> is one of the configured peer addresses, \<^verbatim>\<open>checkBallots\<close> cancels the pending
  removal timer and clears the entry's handle. Whatever timers fire afterwards, the entry
  stays in the node map, and the next message received from the node finds it there and
  sets its state to active.
\<close>

theorem checkBallots_rescues_configured_peer:
  assumes "super_checkBallots candidate st = Inr st1"
    and "nodes_priv st1 candidate = Some n"
    and "source n \<in> set (peerAddresses config)"
  shows "\<exists>st2. checkBallots super_checkBallots config candidate st = Inr st2
      \<and> nodes_priv st2 candidate = Some (n\<lparr>disconnected := None\<rparr>)
      \<and> timers st2 = clearTimeout (disconnected n) (timers st1)
      \<and> (\<forall>h. disconnected n = Some h \<longrightarrow> h \<notin> timers st2)
      \<and> (\<forall>hs. nodes_priv (fold removalTimerFired hs st2) candidate
                 = Some (n\<lparr>disconnected := None\<rparr>))
      \<and> (\<forall>hs src. nodes_priv (messageReceived candidate src (fold removalTimerFired hs st2))
                       candidate
                 = Some (n\<lparr>state := ''active'', disconnected := None\<rparr>))"
proof -
  define st2 where "st2 = st1\<lparr>
      logs := logs st1 @
        [(Debug, ''Saving configured peer '' @ source n @ '' from ultimate removal'')],
      timers := clearTimeout (disconnected n) (timers st1),
      nodes_priv := (nodes_priv st1)(candidate \<mapsto> n\<lparr>disconnected := None\<rparr>)\<rparr>"
  have res: "checkBallots super_checkBallots config candidate st = Inr st2"
    using assms by (simp add: checkBallots_def st2_def)
  have entry: "nodes_priv st2 candidate = Some (n\<lparr>disconnected := None\<rparr>)"
    by (simp add: st2_def)
  have tm: "timers st2 = clearTimeout (disconnected n) (timers st1)"
    by (simp add: st2_def)
  have gone: "\<forall>h. disconnected n = Some h \<longrightarrow> h \<notin> timers st2"
    by (simp add: tm clearTimeout_def)
  have kept: "nodes_priv (fold removalTimerFired hs st2) candidate
                = Some (n\<lparr>disconnected := None\<rparr>)" for hs
    using entry by (rule fold_removalTimerFired_keeps) simp
  have active: "nodes_priv (messageReceived candidate src (fold removalTimerFired hs st2)) candidate
                = Some (n\<lparr>state := ''active'', disconnected := None\<rparr>)" for hs src
    using kept [of hs] by (simp add: messageReceived_def)
  from res entry tm gone kept active show ?thesis by blast
qed

theorem checkBallots_rescues_configured_peer_witness:
  "source kitchen \<in> set (peerAddresses example_config)
   \<and> nodes_priv example_cluster ''kitchen'' = Some kitchen
   \<and> nodes_priv (removalTimerFired 7 example_cluster) ''kitchen'' = None
   \<and> (\<exists>st2. checkBallots (\<lambda>c s. Inr s) example_config ''kitchen'' example_cluster = Inr st2
        \<and> timers st2 = {}
        \<and> nodes_priv (fold removalTimerFired [7] st2) ''kitchen''
            = Some (kitchen\<lparr>disconnected := None\<rparr>)
        \<and> nodes_priv (messageReceived ''kitchen'' ''192.168.1.20:6425''
                        (fold removalTimerFired [7] st2)) ''kitchen''
            = Some (kitchen\<lparr>state := ''active'', disconnected := None\<rparr>))"
proof -
  have a: "(\<lambda>c s. Inr s) ''kitchen'' example_cluster = (Inr example_cluster :: js_error + cluster)"
    by simp
  have b: "nodes_priv example_cluster ''kitchen'' = Some kitchen"
    by (simp add: example_cluster_def)
  have c: "source kitchen \<in> set (peerAddresses example_config)"
    by (simp add: example_config_def kitchen_def)
  have d: "nodes_priv (removalTimerFired 7 example_cluster) ''kitchen'' = None"
    by (simp add: removalTimerFired_def example_cluster_def kitchen_def)
  have e: "clearTimeout (disconnected kitchen) (timers example_cluster) = {}"
    by (simp add: clearTimeout_def example_cluster_def kitchen_def)
  from checkBallots_rescues_configured_peer
         [of "\<lambda>c s. Inr s" "''kitchen''" example_cluster example_cluster kitchen
             example_config]
       b c
  obtain st2 where r:
    "checkBallots (\<lambda>c s. Inr s) example_config ''kitchen'' example_cluster = Inr st2"
    "timers st2 = clearTimeout (disconnected kitchen) (timers example_cluster)"
    "\<forall>hs. nodes_priv (fold removalTimerFired hs st2) ''kitchen''
            = Some (kitchen\<lparr>disconnected := None\<rparr>)"
    "\<forall>hs src. nodes_priv (messageReceived ''kitchen'' src (fold removalTimerFired hs st2))
                  ''kitchen''
            = Some (kitchen\<lparr>state := ''active'', disconnected := None\<rparr>)"
    by auto
  have f: "nodes_priv (fold removalTimerFired [7] st2) ''kitchen''
            = Some (kitchen\<lparr>disconnected := None\<rparr>)"
    using r(3) by blast
  have g: "nodes_priv (messageReceived ''kitchen'' ''192.168.1.20:6425''
                        (fold removalTimerFired [7] st2)) ''kitchen''
            = Some (kitchen\<lparr>state := ''active'', disconnected := None\<rparr>)"
    using r(4) by blast
  have h: "timers st2 = {}"
    using r(2) e by simp
  from b c d r(1) f g h show ?thesis by blast
qed

subsection \<open>Construction and lifecycle\<close>


text \<open>\<open>toString\<close> writes a number in decimal: reading the digits back gives the number.\<close>

lemma digit_value: "d < 10 \<Longrightarrow> of_char (digit d) - 48 = d"
proof -
  assume "d < 10"
  then have "d \<in> {0, 1, 2, 3, 4, 5, 6, 7, 8, 9}" by auto
  then show ?thesis by (auto simp: digit_def)
qed

lemma toString_decimal:
  "foldl (\<lambda>v c. 10 * v + (of_char c - 48)) (0::nat) (toString n) = n"
proof (induction n rule: toString.induct)
  case (1 n)
  show ?case
  proof (cases "n < 10")
    case True
    then show ?thesis by (simp add: toString.simps [of n] digit_value)
  next
    case False
    with 1 show ?thesis by (simp add: toString.simps [of n] digit_value)
  qed
qed




text \<open>
  C9: with \<^verbatim>\<open>autoDiscovery\<close> set and the \<^verbatim>\<open>mdns\<close> module not loaded, the bootstrap hook logs
  one warning, creates neither an advertisement nor a browser, and still broadcasts the
  peer list; it does not fail.
\<close>

theorem onApplicationBootstrap_without_mdns:
  "autoDiscovery config \<Longrightarrow> \<not> mdns_loaded \<Longrightarrow>
     onApplicationBootstrap config mdns_loaded st
       = st\<lparr>logs := logs st @ [(Warn, mdns_missing_warning)],
            sent := sent st @ [(''peers'', Some (peers st))]\<rparr>
     \<and> advertisement (onApplicationBootstrap config mdns_loaded st) = advertisement st
     \<and> browser (onApplicationBootstrap config mdns_loaded st) = browser st"
  by (simp add: onApplicationBootstrap_def broadcastPeers_def)

theorem onApplicationBootstrap_without_mdns_witness:
  "autoDiscovery example_config
   \<and> advertisement (onApplicationBootstrap example_config False example_cluster) = None
   \<and> browser (onApplicationBootstrap example_config False example_cluster) = None
   \<and> logs (onApplicationBootstrap example_config False example_cluster)
       = [(Warn, mdns_missing_warning)]
   \<and> sent (onApplicationBootstrap example_config False example_cluster)
       = [(''peers'', Some [[Some ''192.168.1.20'', Some ''6425'']])]"
proof -
  have a: "autoDiscovery example_config"
    by (simp add: example_config_def)
  from onApplicationBootstrap_without_mdns [of example_config False example_cluster, OF a]
  show ?thesis
    using a by (simp add: example_cluster_def)
qed

text \<open>
  C10, as amended: the shutdown hook stops the advertisement and the browser when they
  exist and does nothing else: the state after it is the state before with the two
  handles stopped, and an absent handle stays absent. Pending timers stay pending, the
  node map, the peer list, the interface list, the log and the record of sent messages
  are unchanged, and a later broadcast still sends.
\<close>

theorem onApplicationShutdown_effect:
  "onApplicationShutdown st
     = st\<lparr>advertisement := (case advertisement st of
                               None \<Rightarrow> None
                             | Some a \<Rightarrow> Some (a\<lparr>ad_running := False\<rparr>)),
          browser := (case browser st of
                        None \<Rightarrow> None
                      | Some b \<Rightarrow> Some (b\<lparr>br_running := False\<rparr>))\<rparr>
   \<and> (\<forall>a. advertisement st = Some a \<longrightarrow>
        advertisement (onApplicationShutdown st) = Some (a\<lparr>ad_running := False\<rparr>))
   \<and> (\<forall>b. browser st = Some b \<longrightarrow>
        browser (onApplicationShutdown st) = Some (b\<lparr>br_running := False\<rparr>))
   \<and> (advertisement st = None \<longrightarrow> advertisement (onApplicationShutdown st) = None)
   \<and> (browser st = None \<longrightarrow> browser (onApplicationShutdown st) = None)
   \<and> timers (onApplicationShutdown st) = timers st
   \<and> nodes_priv (onApplicationShutdown st) = nodes_priv st
   \<and> peers (onApplicationShutdown st) = peers st
   \<and> networkInterfaces (onApplicationShutdown st) = networkInterfaces st
   \<and> logs (onApplicationShutdown st) = logs st
   \<and> sent (onApplicationShutdown st) = sent st
   \<and> sent (broadcastPeers (onApplicationShutdown st)) = sent st @ [(''peers'', Some (peers st))]"
  by (cases "advertisement st"; cases "browser st")
     (simp_all add: onApplicationShutdown_def broadcastPeers_def)

theorem onApplicationShutdown_effect_witness:
  "advertisement (startBonjourDiscovery example_config example_cluster)
     = Some \<lparr>ad_port = 6425, ad_networkInterface = None, ad_running = True\<rparr>
   \<and> browser (startBonjourDiscovery example_config example_cluster)
     = Some \<lparr>br_running = True\<rparr>
   \<and> advertisement (onApplicationShutdown (startBonjourDiscovery example_config example_cluster))
     = Some \<lparr>ad_port = 6425, ad_networkInterface = None, ad_running = False\<rparr>
   \<and> browser (onApplicationShutdown (startBonjourDiscovery example_config example_cluster))
     = Some \<lparr>br_running = False\<rparr>
   \<and> timers (onApplicationShutdown (startBonjourDiscovery example_config example_cluster))
     = {7}
   \<and> advertisement example_cluster = None
   \<and> browser example_cluster = None
   \<and> onApplicationShutdown example_cluster = example_cluster"
  using onApplicationShutdown_effect [of "startBonjourDiscovery example_config example_cluster"]
    onApplicationShutdown_effect [of example_cluster]
  by (simp add: startBonjourDiscovery_def example_config_def example_cluster_def)

text \<open>
  C10 as stated fails: the removal timer of a node that is pending before the hook is
  pending after it, and a broadcast after the hook still sends a message.
\<close>

theorem onApplicationShutdown_counterexample:
  "nodes_priv example_cluster ''kitchen'' = Some kitchen
   \<and> disconnected kitchen = Some 7
   \<and> 7 \<in> timers example_cluster
   \<and> 7 \<in> timers (onApplicationShutdown example_cluster)
   \<and> sent (broadcastPeers (onApplicationShutdown example_cluster))
       \<noteq> sent (onApplicationShutdown example_cluster)"
  by (simp add: onApplicationShutdown_def broadcastPeers_def example_cluster_def kitchen_def)

end
